theory Spec2Isabelle
  imports Complex_Main
begin

section \<open>Pixel arrays, storage and images\<close>

text \<open>
  The pixel data of an image is a numpy array of rank 2 (height, width) or rank 3
  (height, width, channels). The contents of an array are nested lists; the two ranks
  are the two constructors.
\<close>

datatype 'a ndarray = Array2 "'a list list" | Array3 "'a list list list"

text \<open>
  A numpy array object does not hold its samples: it points into a buffer and records
  which window of the buffer it shows. Basic slicing (\<^verbatim>\<open>a[r0:r1, c0:c1]\<close>) makes a
  new array object on the same buffer; the in-place operators (\<^verbatim>\<open>-=\<close>, \<^verbatim>\<open>/=\<close>) write
  the buffer. The store maps a buffer's address to its contents, and a \<open>view\<close> is an
  array object: its buffer, the origin of its window and its shape.
\<close>

type_synonym addr = nat

type_synonym 'a store = "addr \<Rightarrow> 'a ndarray option"

record view =
  base :: addr
  row0 :: nat
  col0 :: nat
  nrows :: nat
  ncols :: nat

text \<open>
  Modelled from the spec: the class \<^verbatim>\<open>Image\<close> (mathics.builtin.image.base) is not
  among the source files. The spec's PixelBuffer has two attributes, the samples and the
  color-space tag; \<^verbatim>\<open>Image(p, cs)\<close> builds the object that holds the array \<^verbatim>\<open>p\<close>
  and the tag \<^verbatim>\<open>cs\<close>.
\<close>

record image =
  pixels :: view
  color_space :: string

definition Image :: "view \<Rightarrow> string \<Rightarrow> image" where
  "Image p cs = \<lparr>pixels = p, color_space = cs\<rparr>"

text \<open>
  Reading one element \<^verbatim>\<open>a[r, c]\<close> (\<open>r\<close>, \<open>c\<close> not negative) through an array object:
  a sample of a rank 2 array, the list of channel samples of a rank 3 array, and nothing
  (numpy raises IndexError) outside the shape.
\<close>

datatype 'a element = Sample 'a | Channels "'a list"

definition nth_opt :: "'b list \<Rightarrow> nat \<Rightarrow> 'b option" where
  "nth_opt xs i = (if i < length xs then Some (xs ! i) else None)"

fun buffer_at :: "'a ndarray \<Rightarrow> nat \<Rightarrow> nat \<Rightarrow> 'a element option" where
  "buffer_at (Array2 rs) r c =
     (case nth_opt rs r of None \<Rightarrow> None | Some row \<Rightarrow> map_option Sample (nth_opt row c))"
| "buffer_at (Array3 rs) r c =
     (case nth_opt rs r of None \<Rightarrow> None | Some row \<Rightarrow> map_option Channels (nth_opt row c))"

definition view_at :: "'a store \<Rightarrow> view \<Rightarrow> nat \<Rightarrow> nat \<Rightarrow> 'a element option" where
  "view_at st v r c =
     (if r < nrows v \<and> c < ncols v
      then (case st (base v) of None \<Rightarrow> None | Some b \<Rightarrow> buffer_at b (row0 v + r) (col0 v + c))
      else None)"

text \<open>
  Python's slice bounds: a negative bound counts from the end, and every bound is clipped
  to the length. \<^verbatim>\<open>a[r0:r1, c0:c1]\<close> on an array object gives the array object of the
  window, on the same buffer.
\<close>

definition slice_bound :: "int \<Rightarrow> nat \<Rightarrow> nat" where
  "slice_bound i n = (if i < 0 then nat (max 0 (int n + i)) else min (nat i) n)"

definition slice_view :: "view \<Rightarrow> int \<Rightarrow> int \<Rightarrow> int \<Rightarrow> int \<Rightarrow> view" where
  "slice_view v r0 r1 c0 c1 =
     (let rs = slice_bound r0 (nrows v); re = slice_bound r1 (nrows v);
          cs = slice_bound c0 (ncols v); ce = slice_bound c1 (ncols v)
      in v\<lparr>row0 := row0 v + rs, nrows := re - rs, col0 := col0 v + cs, ncols := ce - cs\<rparr>)"

section \<open>Host expressions and diagnostics\<close>

text \<open>
  The values of the host language that the builtins of this file take and return: number
  atoms (the pattern \<^verbatim>\<open>_Integer\<close> takes an Integer, \<^verbatim>\<open>_?RealNumberQ\<close> any number; a
  machine real is read as the real number it stands for), image atoms and lists.
\<close>

datatype number = Integer int | MachineReal real

datatype expression =
    Number number
  | ImageAtom image
  | ListExpression "expression list"

text \<open>
  A diagnostic message: the symbol and the tag that key it, the text that the symbol's
  \<^verbatim>\<open>messages\<close> table gives for the tag, and the arguments that fill the text.
\<close>

datatype message = Message string string "string option" "expression list"

record evaluation =
  out :: "message list"

text \<open>
  Modelled from the spec: \<^verbatim>\<open>Evaluation.message\<close> (mathics.core.evaluation) is not among
  the source files. The spec has the host surface a validation failure as a diagnostic
  message keyed by an error identifier and the invalid arguments, without aborting, and
  the failing call echoed back unevaluated: the message is appended to the evaluation's
  output and the call returns no value (Python's None), which the host reads as
  "leave the expression as it is". The host finds the text of the message in the
  \<^verbatim>\<open>messages\<close> table of the builtin, which is passed here.
\<close>

definition Evaluation_message ::
  "evaluation \<Rightarrow> (string \<times> string) list \<Rightarrow> string \<Rightarrow> string \<Rightarrow> expression list
     \<Rightarrow> expression option \<times> evaluation" where
  "Evaluation_message evaluation messages symbol tag args =
     (None, evaluation\<lparr>out := out evaluation @ [Message symbol tag (map_of messages tag) args]\<rparr>)"

text \<open>\<^verbatim>\<open>from_python\<close> on a list of lists of images: the nested list expression.\<close>

definition from_python :: "image list list \<Rightarrow> expression" where
  "from_python parts = ListExpression (map (\<lambda>row. ListExpression (map ImageAtom row)) parts)"

section \<open>ImagePartition\<close>

text \<open>
  \<^verbatim>\<open>ImagePartition.eval\<close> (basic.py, lines 154-172). \<open>py_w\<close> and \<open>py_h\<close> are the values
  of the Integer atoms \<^verbatim>\<open>w\<close> and \<^verbatim>\<open>h\<close>. The two \<^verbatim>\<open>for\<close> loops are folds over their
  ranges; \<open>tile\<close> is the body of the inner loop (lines 168-169). The source's argument
  \<^verbatim>\<open>image\<close> is written \<open>img\<close> throughout.
\<close>

definition ImagePartition_messages :: "(string \<times> string) list" where
  "ImagePartition_messages =
     [(''arg2'', ''`1` is not a valid size specification for image partitions.'')]"

definition tile :: "image \<Rightarrow> int \<Rightarrow> int \<Rightarrow> nat \<Rightarrow> nat \<Rightarrow> image" where
  "tile img py_w py_h yi xi =
     (let p = slice_view (pixels img)
                (int yi * py_h) ((int yi + 1) * py_h) (int xi * py_w) ((int xi + 1) * py_w)
      in Image p (color_space img))"

definition row_loop :: "image \<Rightarrow> int \<Rightarrow> int \<Rightarrow> nat \<Rightarrow> image list" where
  "row_loop img py_w py_h yi =
     foldl (\<lambda>row xi. row @ [tile img py_w py_h yi xi]) []
       [0..<nat (int (ncols (pixels img)) div py_w)]"

definition ImagePartition_eval ::
  "image \<Rightarrow> int \<Rightarrow> int \<Rightarrow> evaluation \<Rightarrow> expression option \<times> evaluation" where
  "ImagePartition_eval img py_w py_h evaluation =
     (if py_w \<le> 0 \<or> py_h \<le> 0
      then Evaluation_message evaluation ImagePartition_messages ''ImagePartition'' ''arg2''
             [ListExpression [Number (Integer py_w), Number (Integer py_h)]]
      else
        let parts =
              foldl (\<lambda>parts yi.
                       let row = row_loop img py_w py_h yi
                       in if row \<noteq> [] then parts @ [row] else parts) []
                [0..<nat (int (nrows (pixels img)) div py_h)]
        in (Some (from_python parts), evaluation))"

text \<open>
  The number of tile rows and tile columns of the grid, as the loops compute them:
  \<^verbatim>\<open>shape[0] // py_h\<close> and \<^verbatim>\<open>shape[1] // py_w\<close> (floor division of Python integers).
\<close>

definition grid_rows :: "image \<Rightarrow> int \<Rightarrow> nat" where
  "grid_rows img py_h = nat (int (nrows (pixels img)) div py_h)"

definition grid_cols :: "image \<Rightarrow> int \<Rightarrow> nat" where
  "grid_cols img py_w = nat (int (ncols (pixels img)) div py_w)"

section \<open>Reading and writing through an array object\<close>

text \<open>
  Python exceptions are values. \<open>ValueError\<close> is what numpy raises for a reduction over no
  element ("zero-size array to reduction operation maximum which has no identity") and for
  operands that do not broadcast. \<open>Dangling\<close> stands for an array object whose buffer the store
  does not hold; no Python program reaches it, and it keeps the model from inventing
  contents.
\<close>

datatype error = ValueError | Dangling

text \<open>
  The window of a buffer that an array object shows, and the buffer after the window has
  been overwritten (the rows and columns outside the window keep their contents).
\<close>

definition window :: "nat \<Rightarrow> nat \<Rightarrow> nat \<Rightarrow> nat \<Rightarrow> 'b list list \<Rightarrow> 'b list list" where
  "window r0 c0 nr nc rs = map (\<lambda>row. take nc (drop c0 row)) (take nr (drop r0 rs))"

definition put_window :: "nat \<Rightarrow> nat \<Rightarrow> 'b list list \<Rightarrow> 'b list list \<Rightarrow> 'b list list" where
  "put_window r0 c0 new rs =
     map (\<lambda>i. if r0 \<le> i \<and> i < r0 + length new
               then take c0 (rs ! i) @ new ! (i - r0) @ drop (c0 + length (new ! (i - r0))) (rs ! i)
               else rs ! i) [0..<length rs]"

fun read_buffer :: "view \<Rightarrow> 'a ndarray \<Rightarrow> 'a ndarray" where
  "read_buffer v (Array2 rs) = Array2 (window (row0 v) (col0 v) (nrows v) (ncols v) rs)"
| "read_buffer v (Array3 rs) = Array3 (window (row0 v) (col0 v) (nrows v) (ncols v) rs)"

definition read_view :: "'a store \<Rightarrow> view \<Rightarrow> 'a ndarray option" where
  "read_view st v = map_option (read_buffer v) (st (base v))"

fun write_buffer :: "view \<Rightarrow> 'a ndarray \<Rightarrow> 'a ndarray \<Rightarrow> 'a ndarray" where
  "write_buffer v (Array2 new) (Array2 rs) = Array2 (put_window (row0 v) (col0 v) new rs)"
| "write_buffer v (Array3 new) (Array3 rs) = Array3 (put_window (row0 v) (col0 v) new rs)"
| "write_buffer v new b = b"

definition write_view :: "'a store \<Rightarrow> view \<Rightarrow> 'a ndarray \<Rightarrow> 'a store" where
  "write_view st v a =
     (case st (base v) of None \<Rightarrow> st | Some b \<Rightarrow> st(base v \<mapsto> write_buffer v a b))"

section \<open>ImageAdjust\<close>

subsection \<open>Automatic levels\<close>

text \<open>
  The result of a reduction over the axes \<open>(0, 1)\<close>: a numpy scalar (shape \<open>()\<close>) for a rank 2
  array, a vector with one entry per channel for a rank 3 array. The reductions raise
  ValueError when the array has no pixel (height 0 or width 0). A floating-point sample
  is read as the real number it stands for: rounding, infinities and NaN are not modelled.
\<close>

datatype reduced = Scalar real | Vector "real list"

fun amax :: "real ndarray \<Rightarrow> error + reduced" where
  "amax (Array2 rs) =
     (if concat rs = [] then Inl ValueError else Inr (Scalar (Max (set (concat rs)))))"
| "amax (Array3 rs) =
     (if concat rs = [] then Inl ValueError
      else Inr (Vector (map (\<lambda>k. Max (set (map (\<lambda>p. p ! k) (concat rs))))
                          [0..<length (hd (concat rs))])))"

fun amin :: "real ndarray \<Rightarrow> error + reduced" where
  "amin (Array2 rs) =
     (if concat rs = [] then Inl ValueError else Inr (Scalar (Min (set (concat rs)))))"
| "amin (Array3 rs) =
     (if concat rs = [] then Inl ValueError
      else Inr (Vector (map (\<lambda>k. Min (set (map (\<lambda>p. p ! k) (concat rs))))
                          [0..<length (hd (concat rs))])))"

text \<open>
  \<^verbatim>\<open>cmaxs - cmins\<close>, the shape of the difference, \<^verbatim>\<open>numpy.array([scales])\<close> and
  \<^verbatim>\<open>scales[scales == 0.0] = 1\<close>.
\<close>

fun reduced_sub :: "reduced \<Rightarrow> reduced \<Rightarrow> reduced" where
  "reduced_sub (Scalar a) (Scalar b) = Scalar (a - b)"
| "reduced_sub (Vector as) (Vector bs) = Vector (map2 (-) as bs)"
| "reduced_sub (Scalar a) (Vector bs) = Vector (map (\<lambda>b. a - b) bs)"
| "reduced_sub (Vector as) (Scalar b) = Vector (map (\<lambda>a. a - b) as)"

fun shape :: "reduced \<Rightarrow> nat list" where
  "shape (Scalar a) = []"
| "shape (Vector as) = [length as]"

fun numpy_array1 :: "reduced \<Rightarrow> reduced" where
  "numpy_array1 (Scalar a) = Vector [a]"
| "numpy_array1 (Vector as) = Vector as"

fun set_zeros_to_one :: "reduced \<Rightarrow> reduced" where
  "set_zeros_to_one (Scalar a) = Scalar (if a = 0 then 1 else a)"
| "set_zeros_to_one (Vector as) = Vector (map (\<lambda>a. if a = 0 then 1 else a) as)"

text \<open>
  Broadcasting the operand of \<^verbatim>\<open>pixels -= cmins\<close> and \<^verbatim>\<open>pixels /= scales\<close>: a scalar or a
  vector of one entry applies to every sample, a longer vector runs along the last axis
  of the array and must have its length. The in-place operator reads the window, computes
  and writes the window back.
\<close>

fun last_axis :: "'a ndarray \<Rightarrow> 'a list list" where
  "last_axis (Array2 rs) = rs"
| "last_axis (Array3 rs) = concat rs"

fun map_last_axis :: "('a list \<Rightarrow> 'a list) \<Rightarrow> 'a ndarray \<Rightarrow> 'a ndarray" where
  "map_last_axis f (Array2 rs) = Array2 (map f rs)"
| "map_last_axis f (Array3 rs) = Array3 (map (map f) rs)"

fun broadcast :: "(real \<Rightarrow> real \<Rightarrow> real) \<Rightarrow> real ndarray \<Rightarrow> reduced \<Rightarrow> error + real ndarray" where
  "broadcast f a (Scalar m) = Inr (map_last_axis (map (\<lambda>x. f x m)) a)"
| "broadcast f a (Vector ms) =
     (if length ms = 1 then Inr (map_last_axis (map (\<lambda>x. f x (hd ms))) a)
      else if list_all (\<lambda>xs. length xs = length ms) (last_axis a)
      then Inr (map_last_axis (\<lambda>xs. map2 f xs ms) a)
      else Inl ValueError)"

definition inplace ::
  "(real \<Rightarrow> real \<Rightarrow> real) \<Rightarrow> real store \<Rightarrow> view \<Rightarrow> reduced \<Rightarrow> (error + unit) \<times> real store" where
  "inplace f st p operand =
     (case read_view st p of
        None \<Rightarrow> (Inl Dangling, st)
      | Some a \<Rightarrow>
          (case broadcast f a operand of
             Inl e \<Rightarrow> (Inl e, st)
           | Inr a' \<Rightarrow> (Inr (), write_view st p a')))"

text \<open>
  \<^verbatim>\<open>ImageAdjust.eval_auto\<close> (basic.py, lines 74-89). \<^verbatim>\<open>pixels_as_float\<close>
  (mathics.eval.image) is not among the source files and is a parameter: it takes the
  store and the array of the image and gives the store after the conversion and the array
  of floats, which may be the array it was given.
\<close>

definition ImageAdjust_eval_auto ::
  "(real store \<Rightarrow> view \<Rightarrow> real store \<times> view) \<Rightarrow> real store \<Rightarrow> image
     \<Rightarrow> (error + image) \<times> real store" where
  "ImageAdjust_eval_auto pixels_as_float st img =
     (let (st1, p) = pixels_as_float st (pixels img) in
      case read_view st1 p of
        None \<Rightarrow> (Inl Dangling, st1)
      | Some a \<Rightarrow>
          (case amax a of
             Inl e \<Rightarrow> (Inl e, st1)
           | Inr cmaxs \<Rightarrow>
               (case amin a of
                  Inl e \<Rightarrow> (Inl e, st1)
                | Inr cmins \<Rightarrow>
                    let scales = reduced_sub cmaxs cmins;
                        scales = (if shape scales = [] then numpy_array1 scales else scales);
                        scales = set_zeros_to_one scales
                    in (case inplace (-) st1 p cmins of
                          (Inl e, st2) \<Rightarrow> (Inl e, st2)
                        | (Inr u, st2) \<Rightarrow>
                            (case inplace (/) st2 p scales of
                               (Inl e, st3) \<Rightarrow> (Inl e, st3)
                             | (Inr u, st3) \<Rightarrow> (Inr (Image p (color_space img)), st3))))))"

subsection \<open>Well-formed buffers and their samples\<close>






text \<open>
  What the claims say about an array: its shape, its number of channels (a rank 2 array
  is one channel), the sample of channel \<open>k\<close> at row \<open>r\<close> and column \<open>c\<close>, and the minimum
  and maximum of a channel over all pixels.
\<close>

fun array_shape :: "'a ndarray \<Rightarrow> nat list" where
  "array_shape (Array2 rs) = [length rs, length (hd rs)]"
| "array_shape (Array3 rs) = [length rs, length (hd rs), length (hd (hd rs))]"


fun sample :: "'a ndarray \<Rightarrow> nat \<Rightarrow> nat \<Rightarrow> nat \<Rightarrow> 'a" where
  "sample (Array2 rs) r c k = rs ! r ! c"
| "sample (Array3 rs) r c k = rs ! r ! c ! k"








subsection \<open>Contrast, brightness and gamma\<close>

text \<open>
  The library calls of basic.py whose code is outside the repository's files, as
  parameters: \<^verbatim>\<open>pixels_as_float\<close>, \<^verbatim>\<open>image.pil()\<close>, the three enhancers of
  PIL.ImageEnhance (\<^verbatim>\<open>Color(im).enhance(f)\<close>, \<^verbatim>\<open>Brightness(im).enhance(f)\<close>,
  \<^verbatim>\<open>Contrast(im).enhance(f)\<close>), \<^verbatim>\<open>numpy.array(im)\<close>, which stores the PIL image as an
  array, \<^verbatim>\<open>im.filter(PIL.ImageFilter.UnsharpMask(r))\<close>, \<^verbatim>\<open>image.filter\<close>, and the host's
  evaluation of \<^verbatim>\<open>ImageConvolve[image, BoxMatrix[r] / Total[Flatten[BoxMatrix[r]]]]\<close>.
  \<open>'pil\<close> is the type of PIL images.
\<close>

record 'pil externals =
  pixels_as_float :: "real store \<Rightarrow> view \<Rightarrow> real store \<times> view"
  Image_pil :: "real store \<Rightarrow> image \<Rightarrow> 'pil"
  Color_enhance :: "'pil \<Rightarrow> real \<Rightarrow> 'pil"
  Brightness_enhance :: "'pil \<Rightarrow> real \<Rightarrow> 'pil"
  Contrast_enhance :: "'pil \<Rightarrow> real \<Rightarrow> 'pil"
  numpy_array :: "real store \<Rightarrow> 'pil \<Rightarrow> real store \<times> view"
  UnsharpMask :: "real \<Rightarrow> 'pil \<Rightarrow> 'pil"
  Image_filter :: "real store \<Rightarrow> image \<Rightarrow> ('pil \<Rightarrow> 'pil) \<Rightarrow> image \<times> real store"
  ImageConvolve_BoxMatrix :: "real store \<Rightarrow> image \<Rightarrow> number \<Rightarrow> image \<times> real store"

text \<open>
  Modelled from the spec: \<^verbatim>\<open>round_to_float\<close> (a method of the host's number atoms) is not
  among the source files. The spec takes contrast, brightness and gamma as real scalars;
  the method gives the value of the number as a Python float, read here as the real number
  it stands for.
\<close>

fun round_to_float :: "number \<Rightarrow> real" where
  "round_to_float (Integer n) = of_int n"
| "round_to_float (MachineReal x) = x"

text \<open>\<^verbatim>\<open>ImageAdjust.eval_contrast_brightness_gamma\<close> (basic.py, lines 91-111).\<close>

definition ImageAdjust_eval_contrast_brightness_gamma ::
  "'pil externals \<Rightarrow> real store \<Rightarrow> image \<Rightarrow> number \<Rightarrow> number \<Rightarrow> number \<Rightarrow> image \<times> real store" where
  "ImageAdjust_eval_contrast_brightness_gamma ext st img c b g =
     (let im = Image_pil ext st img;
          g = round_to_float g;
          im = (if g \<noteq> 1 then Color_enhance ext im g else im);
          b = round_to_float b;
          im = (if b \<noteq> 0 then Brightness_enhance ext im (b + 1) else im);
          c = round_to_float c;
          im = (if c \<noteq> 0 then Contrast_enhance ext im (c + 1) else im);
          (st', a) = numpy_array ext st im
      in (Image a (color_space img), st'))"

section \<open>Sharpen\<close>

text \<open>\<^verbatim>\<open>Sharpen.eval\<close> (basic.py, lines 198-201).\<close>

definition Sharpen_eval :: "'pil externals \<Rightarrow> real store \<Rightarrow> image \<Rightarrow> number \<Rightarrow> image \<times> real store" where
  "Sharpen_eval ext st img r =
     (let f = UnsharpMask ext (round_to_float r)
      in Image_filter ext st img (\<lambda>im. f im))"

section \<open>Rules and dispatch\<close>

text \<open>
  The calls that the patterns of basic.py match, one constructor for each pattern: the
  left-hand sides of the \<^verbatim>\<open>rules\<close> tables and the docstrings of the evaluation methods.
  \<open>ImageConvolve_image_BoxMatrix_r\<close> is the call that the second rule of Blur rewrites to.
\<close>

datatype call =
    Blur_image image
  | Blur_image_r image number
  | ImageAdjust_image image
  | ImageAdjust_image_c image number
  | ImageAdjust_image_c_b image number number
  | ImageAdjust_image_c_b_g image number number number
  | ImagePartition_i_s image int
  | ImagePartition_image_w_h image int int
  | Sharpen_i image
  | Sharpen_image_r image number
  | ImageConvolve_image_BoxMatrix_r image number

text \<open>
  The \<^verbatim>\<open>rules\<close> tables of Blur (lines 37-40), ImageAdjust (lines 69-72), ImagePartition
  (line 150) and Sharpen (line 196): the call that a rule rewrites a call to.
\<close>

fun rules :: "call \<Rightarrow> call option" where
  "rules (Blur_image img) = Some (Blur_image_r img (Integer 2))"
| "rules (Blur_image_r img r) = Some (ImageConvolve_image_BoxMatrix_r img r)"
| "rules (ImageAdjust_image_c img c) = Some (ImageAdjust_image_c_b_g img c (Integer 0) (Integer 1))"
| "rules (ImageAdjust_image_c_b img c b) = Some (ImageAdjust_image_c_b_g img c b (Integer 1))"
| "rules (ImagePartition_i_s i s) = Some (ImagePartition_image_w_h i s s)"
| "rules (Sharpen_i i) = Some (Sharpen_image_r i (Integer 2))"
| "rules c = None"

text \<open>
  The evaluation methods, each under the pattern of its docstring. A method returns an
  expression, or nothing (Python's None), or raises.
\<close>

fun apply_builtin ::
  "'pil externals \<Rightarrow> real store \<Rightarrow> evaluation \<Rightarrow> call
     \<Rightarrow> (error + expression option) \<times> real store \<times> evaluation" where
  "apply_builtin ext st evaluation (ImageAdjust_image img) =
     (case ImageAdjust_eval_auto (pixels_as_float ext) st img of
        (Inl err, st') \<Rightarrow> (Inl err, st', evaluation)
      | (Inr res, st') \<Rightarrow> (Inr (Some (ImageAtom res)), st', evaluation))"
| "apply_builtin ext st evaluation (ImageAdjust_image_c_b_g img c b g) =
     (case ImageAdjust_eval_contrast_brightness_gamma ext st img c b g of
        (res, st') \<Rightarrow> (Inr (Some (ImageAtom res)), st', evaluation))"
| "apply_builtin ext st evaluation (ImagePartition_image_w_h img w h) =
     (case ImagePartition_eval img w h evaluation of
        (res, evaluation') \<Rightarrow> (Inr res, st, evaluation'))"
| "apply_builtin ext st evaluation (Sharpen_image_r img r) =
     (case Sharpen_eval ext st img r of
        (res, st') \<Rightarrow> (Inr (Some (ImageAtom res)), st', evaluation))"
| "apply_builtin ext st evaluation (ImageConvolve_image_BoxMatrix_r img r) =
     (case ImageConvolve_BoxMatrix ext st img r of
        (res, st') \<Rightarrow> (Inr (Some (ImageAtom res)), st', evaluation))"
| "apply_builtin ext st evaluation c = (Inr None, st, evaluation)"

text \<open>
  Modelled from the spec: the host's evaluation loop is not among the source files. The
  spec has the default arguments supplied by rewriting (\<^verbatim>\<open>Blur[image]\<close> to
  \<^verbatim>\<open>Blur[image, 2]\<close>) and a failed call echoed back unevaluated: a call is rewritten while
  a rule matches, then handed to its evaluation method, and stays as it is (\<open>Unevaluated\<close>)
  when the method returns nothing. \<open>rank\<close> bounds the number of rewrites still possible.
\<close>

datatype outcome = Value expression | Unevaluated call

fun rank :: "call \<Rightarrow> nat" where
  "rank (Blur_image img) = 2"
| "rank (Blur_image_r img r) = 1"
| "rank (ImageAdjust_image_c img c) = 1"
| "rank (ImageAdjust_image_c_b img c b) = 1"
| "rank (ImagePartition_i_s i s) = 1"
| "rank (Sharpen_i i) = 1"
| "rank c = 0"

function evaluate ::
  "'pil externals \<Rightarrow> real store \<Rightarrow> evaluation \<Rightarrow> call
     \<Rightarrow> (error + outcome) \<times> real store \<times> evaluation" where
  "evaluate ext st evaluation c =
     (case rules c of
        Some c' \<Rightarrow> evaluate ext st evaluation c'
      | None \<Rightarrow>
          (case apply_builtin ext st evaluation c of
             (Inl err, st', evaluation') \<Rightarrow> (Inl err, st', evaluation')
           | (Inr None, st', evaluation') \<Rightarrow> (Inr (Unevaluated c), st', evaluation')
           | (Inr (Some res), st', evaluation') \<Rightarrow> (Inr (Value res), st', evaluation')))"
  by pat_completeness auto
termination
  by (relation "measure (\<lambda>(ext, st, evaluation, c). rank c)") (auto elim: rules.elims)

declare evaluate.simps [simp del]

section \<open>The steps of the parametric adjustment, as the spec lists them\<close>

text \<open>
  The spec's order of application: gamma, then brightness with factor \<open>brightness + 1\<close>,
  then contrast with factor \<open>contrast + 1\<close>, each step left out when its parameter has its
  identity value (gamma 1, brightness 0, contrast 0). \<open>adjust_steps\<close> follows these words;
  it is compared with the code below. A step is carried out by the enhancer the code uses
  for it.
\<close>

datatype step = Gamma_step real | Brightness_step real | Contrast_step real

definition adjust_steps :: "real \<Rightarrow> real \<Rightarrow> real \<Rightarrow> step list" where
  "adjust_steps contrast brightness gamma =
     (if gamma = 1 then [] else [Gamma_step gamma])
     @ (if brightness = 0 then [] else [Brightness_step (brightness + 1)])
     @ (if contrast = 0 then [] else [Contrast_step (contrast + 1)])"

fun apply_step :: "'pil externals \<Rightarrow> 'pil \<Rightarrow> step \<Rightarrow> 'pil" where
  "apply_step ext im (Gamma_step f) = Color_enhance ext im f"
| "apply_step ext im (Brightness_step f) = Brightness_enhance ext im f"
| "apply_step ext im (Contrast_step f) = Contrast_enhance ext im f"

text \<open>
  An instance of the library parameters for running the model: a PIL image is the list of
  the enhancer calls made on it, in order; the float conversion returns the array it is
  given, \<^verbatim>\<open>numpy.array\<close> returns an empty array object at the address that is the number
  of recorded calls, and the filters return the image they are given.
\<close>

definition tracing_externals :: "step list externals" where
  "tracing_externals =
     \<lparr>pixels_as_float = (\<lambda>st p. (st, p)),
      Image_pil = (\<lambda>st img. []),
      Color_enhance = (\<lambda>im f. im @ [Gamma_step f]),
      Brightness_enhance = (\<lambda>im f. im @ [Brightness_step f]),
      Contrast_enhance = (\<lambda>im f. im @ [Contrast_step f]),
      numpy_array = (\<lambda>st im. (st, \<lparr>base = length im, row0 = 0, col0 = 0, nrows = 0, ncols = 0\<rparr>)),
      UnsharpMask = (\<lambda>r im. im),
      Image_filter = (\<lambda>st img f. (img, st)),
      ImageConvolve_BoxMatrix = (\<lambda>st img r. (img, st))\<rparr>"





section \<open>Blur and Sharpen, from the spec\<close>

text \<open>
  Modelled from the spec: the builtins \<^verbatim>\<open>ImageConvolve\<close> and \<^verbatim>\<open>BoxMatrix\<close>, to which the
  second rule of Blur rewrites, the method \<^verbatim>\<open>Image.filter\<close> and PIL's unsharp mask, to which
  \<^verbatim>\<open>Sharpen.eval\<close> hands the image, are not among the source files. The spec's blur derives a
  square averaging kernel from the radius, normalised so that its weights sum to 1 (the
  rule's \<^verbatim>\<open>BoxMatrix[r] / Total[Flatten[BoxMatrix[r]]]\<close>), and applies it by a 2D convolution
  that clamps at the boundary; the spec's sharpen applies an unsharp mask of that radius.
  The spec leaves the algorithms to the implementer: the box matrix has side
  \<open>2 * floor r + 1\<close>, the convolution reads the nearest pixel inside the image for a position
  outside it, and the unsharp mask adds to each sample its difference from the blurred
  sample. A buffer is the spec's PixelBuffer: samples and a color-space tag.
\<close>

record pixel_buffer =
  samples :: "real ndarray"
  colorSpace :: string

definition valid_buffer :: "pixel_buffer \<Rightarrow> bool" where
  "valid_buffer buffer = (0 < array_shape (samples buffer) ! 0 \<and> 0 < array_shape (samples buffer) ! 1)"

definition BoxMatrix :: "real \<Rightarrow> real list list" where
  "BoxMatrix r = (let n = 2 * nat \<lfloor>r\<rfloor> + 1 in replicate n (replicate n 1))"

definition normalised :: "real list list \<Rightarrow> real list list" where
  "normalised k = (let total = sum_list (concat k) in map (map (\<lambda>x. x / total)) k)"

definition clamp :: "int \<Rightarrow> nat \<Rightarrow> nat" where
  "clamp i n = nat (max 0 (min i (int n - 1)))"

definition convolve_at ::
  "real list list \<Rightarrow> (nat \<Rightarrow> nat \<Rightarrow> real) \<Rightarrow> nat \<Rightarrow> nat \<Rightarrow> nat \<Rightarrow> nat \<Rightarrow> real" where
  "convolve_at k f h w i j =
     (let m = int (length k) div 2
      in sum_list (map (\<lambda>u. sum_list (map (\<lambda>v. k ! u ! v
                                                * f (clamp (int i + int u - m) h)
                                                    (clamp (int j + int v - m) w))
                                       [0..<length (k ! u)]))
                    [0..<length k]))"

fun ImageConvolve :: "real list list \<Rightarrow> real ndarray \<Rightarrow> real ndarray" where
  "ImageConvolve k (Array2 rs) =
     Array2 (map (\<lambda>i. map (\<lambda>j. convolve_at k (\<lambda>y x. rs ! y ! x) (length rs) (length (rs ! i)) i j)
                           [0..<length (rs ! i)])
               [0..<length rs])"
| "ImageConvolve k (Array3 rs) =
     Array3 (map (\<lambda>i. map (\<lambda>j. map (\<lambda>c. convolve_at k (\<lambda>y x. rs ! y ! x ! c)
                                           (length rs) (length (rs ! i)) i j)
                                    [0..<length (rs ! i ! j)])
                           [0..<length (rs ! i)])
               [0..<length rs])"

definition blur :: "pixel_buffer \<Rightarrow> real \<Rightarrow> pixel_buffer" where
  "blur buffer radius =
     buffer\<lparr>samples := ImageConvolve (normalised (BoxMatrix radius)) (samples buffer)\<rparr>"

fun unsharp :: "real ndarray \<Rightarrow> real ndarray \<Rightarrow> real ndarray" where
  "unsharp (Array2 rs) blurred =
     Array2 (map (\<lambda>i. map (\<lambda>j. rs ! i ! j + (rs ! i ! j - sample blurred i j 0))
                           [0..<length (rs ! i)])
               [0..<length rs])"
| "unsharp (Array3 rs) blurred =
     Array3 (map (\<lambda>i. map (\<lambda>j. map (\<lambda>c. rs ! i ! j ! c + (rs ! i ! j ! c - sample blurred i j c))
                                    [0..<length (rs ! i ! j)])
                           [0..<length (rs ! i)])
               [0..<length rs])"

definition sharpen :: "pixel_buffer \<Rightarrow> real \<Rightarrow> pixel_buffer" where
  "sharpen buffer radius =
     buffer\<lparr>samples :=
              unsharp (samples buffer)
                (ImageConvolve (normalised (BoxMatrix radius)) (samples buffer))\<rparr>"

section \<open>Properties of ImagePartition\<close>

lemma foldl_snoc_map: "foldl (\<lambda>acc x. acc @ [f x]) a xs = a @ map f xs"
  by (induction xs arbitrary: a) simp_all

lemma foldl_snoc_nonempty:
  "foldl (\<lambda>acc x. let r = f x in if r \<noteq> [] then acc @ [r] else acc) a xs
     = a @ filter (\<lambda>r. r \<noteq> []) (map f xs)"
  by (induction xs arbitrary: a) (simp_all add: Let_def)

lemma row_loop_map:
  "row_loop img py_w py_h yi
     = map (tile img py_w py_h yi) [0..<nat (int (ncols (pixels img)) div py_w)]"
  by (simp add: row_loop_def foldl_snoc_map)


lemma nat_div_int: "0 < h \<Longrightarrow> nat (int n div h) = n div nat h"
  by (metis nat_int nat_div_distrib of_nat_0_le_iff)

lemma tile_fits: "yi < n div H \<Longrightarrow> Suc yi * H \<le> (n::nat)"
proof -
  assume "yi < n div H"
  then have "Suc yi \<le> n div H" by simp
  then have "Suc yi * H \<le> (n div H) * H" by (rule mult_le_mono1)
  also have "\<dots> \<le> n" by simp
  finally show ?thesis .
qed

lemma slice_bound_lo: "0 < h \<Longrightarrow> yi < n div nat h \<Longrightarrow> slice_bound (int yi * h) n = yi * nat h"
proof -
  assume h: "0 < h" and y: "yi < n div nat h"
  have "yi * nat h \<le> Suc yi * nat h" by simp
  with tile_fits[OF y] have le: "yi * nat h \<le> n" by linarith
  have eq: "nat (int yi * h) = yi * nat h" using h by (simp add: nat_mult_distrib)
  have "0 \<le> int yi * h" using h by simp
  then show ?thesis using le eq by (simp add: slice_bound_def)
qed

lemma slice_bound_hi: "0 < h \<Longrightarrow> yi < n div nat h \<Longrightarrow> slice_bound ((int yi + 1) * h) n = Suc yi * nat h"
proof -
  assume h: "0 < h" and y: "yi < n div nat h"
  have eq: "nat ((int yi + 1) * h) = Suc yi * nat h"
  proof -
    have "(int yi + 1) * h = int (Suc yi) * h" by simp
    then show ?thesis using h by (simp only: nat_mult_distrib of_nat_0_le_iff nat_int)
  qed
  have "0 \<le> (int yi + 1) * h" using h by simp
  then show ?thesis using tile_fits[OF y] eq by (simp add: slice_bound_def)
qed


lemma tile_view:
  assumes w: "0 < py_w" and h: "0 < py_h"
    and yi: "yi < nrows (pixels img) div nat py_h" and xi: "xi < ncols (pixels img) div nat py_w"
  shows "pixels (tile img py_w py_h yi xi) =
           (pixels img)\<lparr>row0 := row0 (pixels img) + yi * nat py_h, nrows := nat py_h,
                          col0 := col0 (pixels img) + xi * nat py_w, ncols := nat py_w\<rparr>"
  using slice_bound_lo[OF h yi] slice_bound_hi[OF h yi] slice_bound_lo[OF w xi] slice_bound_hi[OF w xi]
  by (simp add: tile_def Image_def slice_view_def Let_def)

lemma tile_color_space: "color_space (tile img py_w py_h yi xi) = color_space img"
  by (simp add: tile_def Image_def Let_def)

lemma parts_eq:
  assumes w: "0 < py_w" and h: "0 < py_h"
  shows "ImagePartition_eval img py_w py_h evaluation =
           (Some (from_python
              (if ncols (pixels img) div nat py_w = 0 then []
               else map (\<lambda>yi. map (tile img py_w py_h yi) [0..<ncols (pixels img) div nat py_w])
                      [0..<nrows (pixels img) div nat py_h])), evaluation)"
proof -
  have "filter (\<lambda>r. r \<noteq> []) (map (\<lambda>yi. map (tile img py_w py_h yi) [0..<c]) [0..<r])
        = (if c = 0 then [] else map (\<lambda>yi. map (tile img py_w py_h yi) [0..<c]) [0..<r])" for c r
    by (induction r) auto
  then have "foldl (\<lambda>parts yi. let row = row_loop img py_w py_h yi
                         in if row \<noteq> [] then parts @ [row] else parts) []
               [0..<nat (int (nrows (pixels img)) div py_h)]
        = (if ncols (pixels img) div nat py_w = 0 then []
           else map (\<lambda>yi. map (tile img py_w py_h yi) [0..<ncols (pixels img) div nat py_w])
                  [0..<nrows (pixels img) div nat py_h])"
    unfolding foldl_snoc_nonempty row_loop_map nat_div_int[OF w] nat_div_int[OF h] by simp
  then show ?thesis
    using w h unfolding ImagePartition_eval_def Let_def by simp
qed

lemma tile_at:
  assumes w: "0 < py_w" and h: "0 < py_h"
    and yi: "yi < nrows (pixels img) div nat py_h" and xi: "xi < ncols (pixels img) div nat py_w"
    and r: "r < nat py_h" and c: "c < nat py_w"
  shows "view_at st (pixels (tile img py_w py_h yi xi)) r c
           = view_at st (pixels img) (yi * nat py_h + r) (xi * nat py_w + c)"
proof -
  have "yi * nat py_h + r < Suc yi * nat py_h" using r by simp
  with tile_fits[OF yi] have r': "yi * nat py_h + r < nrows (pixels img)" by linarith
  have "xi * nat py_w + c < Suc xi * nat py_w" using c by simp
  with tile_fits[OF xi] have c': "xi * nat py_w + c < ncols (pixels img)" by linarith
  show ?thesis
    using r c r' c' by (simp add: tile_view[OF w h yi xi] view_at_def add.assoc split: option.split)
qed


subsection \<open>The grid of tiles\<close>

text \<open>
  Claim C1, as the code has it. For \<open>py_w > 0\<close> and \<open>py_h > 0\<close> the call returns a row-major
  grid. With \<open>rows = floor (height / py_h)\<close> and \<open>cols = floor (width / py_w)\<close>, the grid has
  \<open>rows\<close> row-sequences of \<open>cols\<close> tiles each when \<open>cols > 0\<close>, and is the empty grid when
  \<open>cols = 0\<close> (so also when \<open>rows = 0\<close>). Tile \<open>(i, j)\<close> has the color space of the source and
  shape \<open>(py_h, py_w)\<close>, and its element \<open>(r, c)\<close> is the source's element
  \<open>(i * py_h + r, j * py_w + c)\<close>: it spans the source rows \<open>[i * py_h, (i + 1) * py_h)\<close> and
  columns \<open>[j * py_w, (j + 1) * py_w)\<close>. No tile reaches into a remainder strip, no message
  is issued.
\<close>

theorem ImagePartition_grid:
  assumes w: "0 < py_w" and h: "0 < py_h"
  shows "\<exists>grid.
           ImagePartition_eval img py_w py_h evaluation = (Some (from_python grid), evaluation)
         \<and> length grid = (if grid_cols img py_w = 0 then 0 else grid_rows img py_h)
         \<and> (\<forall>i < length grid.
               length (grid ! i) = grid_cols img py_w
             \<and> (\<forall>j < grid_cols img py_w.
                   color_space (grid ! i ! j) = color_space img
                 \<and> base (pixels (grid ! i ! j)) = base (pixels img)
                 \<and> nrows (pixels (grid ! i ! j)) = nat py_h
                 \<and> ncols (pixels (grid ! i ! j)) = nat py_w
                 \<and> (\<forall>r < nat py_h. \<forall>c < nat py_w.
                       view_at st (pixels (grid ! i ! j)) r c
                         = view_at st (pixels img) (i * nat py_h + r) (j * nat py_w + c))))"
proof -
  define cols where "cols = ncols (pixels img) div nat py_w"
  define rows where "rows = nrows (pixels img) div nat py_h"
  define grid where
    "grid = (if cols = 0 then [] else map (\<lambda>yi. map (tile img py_w py_h yi) [0..<cols]) [0..<rows])"
  have gc: "grid_cols img py_w = cols" and gr: "grid_rows img py_h = rows"
    using w h by (simp_all add: grid_cols_def grid_rows_def cols_def rows_def nat_div_int)
  have ev: "ImagePartition_eval img py_w py_h evaluation = (Some (from_python grid), evaluation)"
    unfolding grid_def cols_def rows_def by (rule parts_eq[OF w h])
  have len: "length grid = (if cols = 0 then 0 else rows)"
    by (simp add: grid_def)
  have tiles: "length (grid ! i) = cols
             \<and> (\<forall>j < cols.
                   color_space (grid ! i ! j) = color_space img
                 \<and> base (pixels (grid ! i ! j)) = base (pixels img)
                 \<and> nrows (pixels (grid ! i ! j)) = nat py_h
                 \<and> ncols (pixels (grid ! i ! j)) = nat py_w
                 \<and> (\<forall>r < nat py_h. \<forall>c < nat py_w.
                       view_at st (pixels (grid ! i ! j)) r c
                         = view_at st (pixels img) (i * nat py_h + r) (j * nat py_w + c)))"
    if i: "i < length grid" for i
  proof -
    from i have c0: "cols \<noteq> 0" by (auto simp: grid_def split: if_splits)
    with i have ir: "i < rows" by (simp add: grid_def)
    have row: "grid ! i = map (tile img py_w py_h i) [0..<cols]"
      using c0 ir by (simp add: grid_def)
    have one: "color_space (grid ! i ! j) = color_space img
                 \<and> base (pixels (grid ! i ! j)) = base (pixels img)
                 \<and> nrows (pixels (grid ! i ! j)) = nat py_h
                 \<and> ncols (pixels (grid ! i ! j)) = nat py_w
                 \<and> (\<forall>r < nat py_h. \<forall>c < nat py_w.
                       view_at st (pixels (grid ! i ! j)) r c
                         = view_at st (pixels img) (i * nat py_h + r) (j * nat py_w + c))"
      if j: "j < cols" for j
    proof -
      have t: "grid ! i ! j = tile img py_w py_h i j" using j by (simp add: row)
      have yi: "i < nrows (pixels img) div nat py_h" using ir by (simp add: rows_def)
      have xi: "j < ncols (pixels img) div nat py_w" using j by (simp add: cols_def)
      show ?thesis
        unfolding t
        using tile_at[OF w h yi xi, of _ _ st]
        by (simp add: tile_color_space tile_view[OF w h yi xi])
    qed
    show ?thesis using one by (simp add: row)
  qed
  show ?thesis
    unfolding gc gr using ev len tiles by blast
qed

text \<open>
  The theorem at a 5 x 4 image cut into 2 x 2 tiles: two rows of two tiles (the fifth
  source row is dropped), and element \<open>(1, 0)\<close> of tile \<open>(1, 1)\<close> is the source's element
  \<open>(3, 2)\<close>.
\<close>

theorem ImagePartition_grid_witness:
  "(0::int) < 2 \<and> (0::int) < 2
   \<and> (\<exists>grid.
         ImagePartition_eval
           \<lparr>pixels = \<lparr>base = 0, row0 = 0, col0 = 0, nrows = 5, ncols = 4\<rparr>, color_space = ''RGB''\<rparr>
           2 2 \<lparr>out = []\<rparr> = (Some (from_python grid), \<lparr>out = []\<rparr>)
       \<and> length grid = 2 \<and> length (grid ! 1) = 2
       \<and> nrows (pixels (grid ! 1 ! 1)) = 2 \<and> ncols (pixels (grid ! 1 ! 1)) = 2
       \<and> view_at (\<lambda>a. if a = 0 then Some (Array2 [[1, 2, 3, 4], [5, 6, 7, 8], [9, 10, 11, 12],
                                                   [13, 14, 15, 16], [17, 18, 19, 20::int]])
                        else None)
            (pixels (grid ! 1 ! 1)) 1 0 = Some (Sample 15))"
proof -
  let ?img = "\<lparr>pixels = \<lparr>base = 0, row0 = 0, col0 = 0, nrows = 5, ncols = 4\<rparr>, color_space = ''RGB''\<rparr>"
  let ?st = "\<lambda>a::nat. if a = 0 then Some (Array2 [[1, 2, 3, 4], [5, 6, 7, 8], [9, 10, 11, 12],
                                                   [13, 14, 15, 16], [17, 18, 19, 20::int]])
                        else None"
  have a: "(0::int) < 2" by simp
  have rows: "grid_rows ?img 2 = 2" and cols: "grid_cols ?img 2 = 2"
    by (simp_all add: grid_rows_def grid_cols_def)
  from ImagePartition_grid[OF a a, of ?img "\<lparr>out = []\<rparr>" ?st]
  obtain grid where ev: "ImagePartition_eval ?img 2 2 \<lparr>out = []\<rparr> = (Some (from_python grid), \<lparr>out = []\<rparr>)"
    and len: "length grid = 2"
    and tiles: "\<forall>i < length grid. length (grid ! i) = 2
             \<and> (\<forall>j < 2.
                   color_space (grid ! i ! j) = color_space ?img
                 \<and> base (pixels (grid ! i ! j)) = base (pixels ?img)
                 \<and> nrows (pixels (grid ! i ! j)) = nat 2
                 \<and> ncols (pixels (grid ! i ! j)) = nat 2
                 \<and> (\<forall>r < nat 2. \<forall>c < nat 2.
                       view_at ?st (pixels (grid ! i ! j)) r c
                         = view_at ?st (pixels ?img) (i * nat 2 + r) (j * nat 2 + c)))"
    unfolding rows cols by auto
  from tiles len have t1: "length (grid ! 1) = 2
             \<and> (\<forall>j < 2.
                   color_space (grid ! 1 ! j) = color_space ?img
                 \<and> base (pixels (grid ! 1 ! j)) = base (pixels ?img)
                 \<and> nrows (pixels (grid ! 1 ! j)) = nat 2
                 \<and> ncols (pixels (grid ! 1 ! j)) = nat 2
                 \<and> (\<forall>r < nat 2. \<forall>c < nat 2.
                       view_at ?st (pixels (grid ! 1 ! j)) r c
                         = view_at ?st (pixels ?img) (1 * nat 2 + r) (j * nat 2 + c)))"
    by simp
  then have t11: "nrows (pixels (grid ! 1 ! 1)) = nat 2
                 \<and> ncols (pixels (grid ! 1 ! 1)) = nat 2
                 \<and> (\<forall>r < nat 2. \<forall>c < nat 2.
                       view_at ?st (pixels (grid ! 1 ! 1)) r c
                         = view_at ?st (pixels ?img) (1 * nat 2 + r) (1 * nat 2 + c))"
    by simp
  then have allrc: "\<forall>r < nat 2. \<forall>c < nat 2.
                       view_at ?st (pixels (grid ! 1 ! 1)) r c
                         = view_at ?st (pixels ?img) (1 * nat 2 + r) (1 * nat 2 + c)"
    by blast
  have r1: "(1::nat) < nat 2" and c0: "(0::nat) < nat 2" by simp_all
  have "view_at ?st (pixels (grid ! 1 ! 1)) 1 0
                         = view_at ?st (pixels ?img) (1 * nat 2 + 1) (1 * nat 2 + 0)"
    by (rule allrc[rule_format, OF r1 c0])
  also have "\<dots> = Some (Sample 15)"
    by (simp add: view_at_def nth_opt_def)
  finally have v: "view_at ?st (pixels (grid ! 1 ! 1)) 1 0 = Some (Sample 15)" .
  from ev len t1 t11 v show ?thesis by auto
qed

text \<open>
  As the spec states it, the grid has exactly \<open>rows\<close> row-sequences. A 2 x 1 image
  (height 2, width 1) cut into tiles of width 2 and height 1 has \<open>rows = 2\<close> and
  \<open>cols = 0\<close>: every row-sequence is empty, line 170 (\<^verbatim>\<open>if row:\<close>) drops it, and the
  result is the empty grid, not two row-sequences.
\<close>

theorem ImagePartition_rows_counterexample:
  "(0::int) < 2 \<and> (0::int) < 1
   \<and> ImagePartition_eval
       \<lparr>pixels = \<lparr>base = 0, row0 = 0, col0 = 0, nrows = 2, ncols = 1\<rparr>, color_space = ''Grayscale''\<rparr>
       2 1 \<lparr>out = []\<rparr> = (Some (from_python []), \<lparr>out = []\<rparr>)
   \<and> grid_rows
       \<lparr>pixels = \<lparr>base = 0, row0 = 0, col0 = 0, nrows = 2, ncols = 1\<rparr>, color_space = ''Grayscale''\<rparr> 1
       = 2
   \<and> length ([] :: image list list) \<noteq> 2"
  by (simp add: parts_eq grid_rows_def)

text \<open>
  Claim C10. For \<open>py_w > 0\<close> and \<open>py_h > 0\<close> the grid that the call returns holds no empty
  row-sequence; when \<open>floor (width / py_w) = 0\<close> it is the empty grid, whatever
  \<open>floor (height / py_h)\<close> is.
\<close>

theorem ImagePartition_no_empty_row:
  assumes w: "0 < py_w" and h: "0 < py_h"
  shows "\<exists>grid.
           ImagePartition_eval img py_w py_h evaluation = (Some (from_python grid), evaluation)
         \<and> [] \<notin> set grid
         \<and> (grid_cols img py_w = 0 \<longrightarrow> grid = [])"
proof -
  have gc: "grid_cols img py_w = ncols (pixels img) div nat py_w"
    using w by (simp add: grid_cols_def nat_div_int)
  define grid where
    "grid = (if ncols (pixels img) div nat py_w = 0 then []
             else map (\<lambda>yi. map (tile img py_w py_h yi) [0..<ncols (pixels img) div nat py_w])
                    [0..<nrows (pixels img) div nat py_h])"
  have ev: "ImagePartition_eval img py_w py_h evaluation = (Some (from_python grid), evaluation)"
    unfolding grid_def by (rule parts_eq[OF w h])
  have ne: "[] \<notin> set grid" by (auto simp: grid_def)
  have em: "grid_cols img py_w = 0 \<longrightarrow> grid = []" by (simp add: gc grid_def)
  show ?thesis by (intro exI[of _ grid] conjI ev ne em)
qed

text \<open>
  The theorem at a 2 x 1 image and tiles of width 2 and height 1, where
  \<open>floor (height / py_h) = 2 > 0\<close>: the grid is empty.
\<close>

theorem ImagePartition_no_empty_row_witness:
  "(0::int) < 2 \<and> (0::int) < 1
   \<and> 0 < grid_rows
       \<lparr>pixels = \<lparr>base = 0, row0 = 0, col0 = 0, nrows = 2, ncols = 1\<rparr>, color_space = ''Grayscale''\<rparr> 1
   \<and> (\<exists>grid.
         ImagePartition_eval
           \<lparr>pixels = \<lparr>base = 0, row0 = 0, col0 = 0, nrows = 2, ncols = 1\<rparr>, color_space = ''Grayscale''\<rparr>
           2 1 \<lparr>out = []\<rparr> = (Some (from_python grid), \<lparr>out = []\<rparr>)
       \<and> [] \<notin> set grid \<and> grid = [])"
proof -
  have a: "(0::int) < 2" and b: "(0::int) < 1" by simp_all
  show ?thesis
    using ImagePartition_no_empty_row[OF a b,
      of "\<lparr>pixels = \<lparr>base = 0, row0 = 0, col0 = 0, nrows = 2, ncols = 1\<rparr>, color_space = ''Grayscale''\<rparr>"
         "\<lparr>out = []\<rparr>"]
    by (simp add: grid_cols_def grid_rows_def)
qed

section \<open>Properties of the rules and of the parametric adjustment\<close>

text \<open>
  Claim C3. \<^verbatim>\<open>ImagePartition[image, {w, h}]\<close> reports the invalid size specification
  exactly when \<open>w \<le> 0\<close> or \<open>h \<le> 0\<close>. Then the evaluation method returns nothing and appends
  the message \<open>arg2\<close> of ImagePartition, with its text and the offending pair \<open>{w, h}\<close>, to
  the evaluation's output; the host leaves the call as it is (no exception), and the store,
  so the input buffer, is the one before the call. When \<open>w > 0\<close> and \<open>h > 0\<close> the call
  returns a grid and the output of the evaluation is unchanged: no message is reported.
\<close>

theorem ImagePartition_invalid_size:
  "(py_w \<le> 0 \<or> py_h \<le> 0 \<longrightarrow>
      ImagePartition_eval img py_w py_h evaluation =
        (None, evaluation\<lparr>out := out evaluation @
           [Message ''ImagePartition'' ''arg2''
              (Some ''`1` is not a valid size specification for image partitions.'')
              [ListExpression [Number (Integer py_w), Number (Integer py_h)]]]\<rparr>)
    \<and> evaluate ext st evaluation (ImagePartition_image_w_h img py_w py_h) =
        (Inr (Unevaluated (ImagePartition_image_w_h img py_w py_h)), st,
         evaluation\<lparr>out := out evaluation @
           [Message ''ImagePartition'' ''arg2''
              (Some ''`1` is not a valid size specification for image partitions.'')
              [ListExpression [Number (Integer py_w), Number (Integer py_h)]]]\<rparr>))
   \<and> (0 < py_w \<and> 0 < py_h \<longrightarrow>
        (\<exists>grid. ImagePartition_eval img py_w py_h evaluation = (Some (from_python grid), evaluation)
               \<and> evaluate ext st evaluation (ImagePartition_image_w_h img py_w py_h) =
                   (Inr (Value (from_python grid)), st, evaluation)))"
proof (intro conjI impI)
  assume bad: "py_w \<le> 0 \<or> py_h \<le> 0"
  then show m: "ImagePartition_eval img py_w py_h evaluation =
        (None, evaluation\<lparr>out := out evaluation @
           [Message ''ImagePartition'' ''arg2''
              (Some ''`1` is not a valid size specification for image partitions.'')
              [ListExpression [Number (Integer py_w), Number (Integer py_h)]]]\<rparr>)"
    by (simp add: ImagePartition_eval_def Evaluation_message_def ImagePartition_messages_def)
  show "evaluate ext st evaluation (ImagePartition_image_w_h img py_w py_h) =
        (Inr (Unevaluated (ImagePartition_image_w_h img py_w py_h)), st,
         evaluation\<lparr>out := out evaluation @
           [Message ''ImagePartition'' ''arg2''
              (Some ''`1` is not a valid size specification for image partitions.'')
              [ListExpression [Number (Integer py_w), Number (Integer py_h)]]]\<rparr>)"
    by (subst evaluate.simps) (simp add: m)
next
  assume ok: "0 < py_w \<and> 0 < py_h"
  then have w: "0 < py_w" and h: "0 < py_h" by simp_all
  from parts_eq[OF w h, of img evaluation]
  obtain grid where g: "ImagePartition_eval img py_w py_h evaluation = (Some (from_python grid), evaluation)"
    by blast
  have "evaluate ext st evaluation (ImagePartition_image_w_h img py_w py_h) =
                   (Inr (Value (from_python grid)), st, evaluation)"
    by (subst evaluate.simps) (simp add: g)
  with g show "\<exists>grid. ImagePartition_eval img py_w py_h evaluation = (Some (from_python grid), evaluation)
               \<and> evaluate ext st evaluation (ImagePartition_image_w_h img py_w py_h) =
                   (Inr (Value (from_python grid)), st, evaluation)"
    by blast
qed

text \<open>
  The theorem at the docstring's example \<^verbatim>\<open>ImagePartition[lena, {0, 300}]\<close> on a
  512 x 512 image, and at \<^verbatim>\<open>{256, 300}\<close>, where no message is reported.
\<close>

theorem ImagePartition_invalid_size_witness:
  "((0::int) \<le> 0 \<or> (300::int) \<le> 0)
   \<and> evaluate tracing_externals (\<lambda>a. None) \<lparr>out = []\<rparr>
         (ImagePartition_image_w_h
            \<lparr>pixels = \<lparr>base = 0, row0 = 0, col0 = 0, nrows = 512, ncols = 512\<rparr>, color_space = ''RGB''\<rparr>
            0 300)
       = (Inr (Unevaluated
                (ImagePartition_image_w_h
                   \<lparr>pixels = \<lparr>base = 0, row0 = 0, col0 = 0, nrows = 512, ncols = 512\<rparr>, color_space = ''RGB''\<rparr>
                   0 300)),
          (\<lambda>a. None),
          \<lparr>out = [Message ''ImagePartition'' ''arg2''
                    (Some ''`1` is not a valid size specification for image partitions.'')
                    [ListExpression [Number (Integer 0), Number (Integer 300)]]]\<rparr>)
   \<and> ((0::int) < 256 \<and> (0::int) < 300)
   \<and> (\<exists>grid. evaluate tracing_externals (\<lambda>a. None) \<lparr>out = []\<rparr>
         (ImagePartition_image_w_h
            \<lparr>pixels = \<lparr>base = 0, row0 = 0, col0 = 0, nrows = 512, ncols = 512\<rparr>, color_space = ''RGB''\<rparr>
            256 300)
       = (Inr (Value (from_python grid)), (\<lambda>a. None), \<lparr>out = []\<rparr>))"
  using
    ImagePartition_invalid_size[of 0 300
      "\<lparr>pixels = \<lparr>base = 0, row0 = 0, col0 = 0, nrows = 512, ncols = 512\<rparr>, color_space = ''RGB''\<rparr>"
      "\<lparr>out = []\<rparr>" tracing_externals "\<lambda>a. None"]
    ImagePartition_invalid_size[of 256 300
      "\<lparr>pixels = \<lparr>base = 0, row0 = 0, col0 = 0, nrows = 512, ncols = 512\<rparr>, color_space = ''RGB''\<rparr>"
      "\<lparr>out = []\<rparr>" tracing_externals "\<lambda>a. None"]
  by auto

text \<open>
  Claim C6. The parametric adjustment carries out the steps that the spec lists, in the
  spec's order: the PIL image of the input goes through the gamma step (the Color
  enhancer with factor \<open>g\<close>) unless \<open>g = 1\<close>, then the brightness step (factor \<open>b + 1\<close>)
  unless \<open>b = 0\<close>, then the contrast step (factor \<open>c + 1\<close>) unless \<open>c = 0\<close>, and the result is
  stored as an array with the color space of the input. The enhancers are parameters, so
  the equation holds whatever they compute.
\<close>

theorem parametric_adjust_steps:
  "ImageAdjust_eval_contrast_brightness_gamma ext st img c b g =
     (let im = foldl (apply_step ext) (Image_pil ext st img)
                 (adjust_steps (round_to_float c) (round_to_float b) (round_to_float g));
          (st', a) = numpy_array ext st im
      in (Image a (color_space img), st'))"
  by (simp add: ImageAdjust_eval_contrast_brightness_gamma_def adjust_steps_def Let_def)

text \<open>
  The theorem with enhancers that record their calls, at contrast 1/2, brightness 0 and
  gamma 2: the gamma step with factor 2, then the contrast step with factor 3/2; the
  brightness step is skipped.
\<close>

theorem parametric_adjust_steps_witness:
  "ImageAdjust_eval_contrast_brightness_gamma tracing_externals (\<lambda>a. None)
     \<lparr>pixels = \<lparr>base = 0, row0 = 0, col0 = 0, nrows = 2, ncols = 2\<rparr>, color_space = ''RGB''\<rparr>
     (MachineReal (1 / 2)) (Integer 0) (Integer 2)
   = (Image \<lparr>base = 2, row0 = 0, col0 = 0, nrows = 0, ncols = 0\<rparr> ''RGB'', (\<lambda>a. None))
   \<and> foldl (apply_step tracing_externals) []
         (adjust_steps (round_to_float (MachineReal (1 / 2))) (round_to_float (Integer 0))
            (round_to_float (Integer 2)))
       = [Gamma_step 2, Contrast_step (3 / 2)]"
  using parametric_adjust_steps[of tracing_externals "\<lambda>a. None"
      "\<lparr>pixels = \<lparr>base = 0, row0 = 0, col0 = 0, nrows = 2, ncols = 2\<rparr>, color_space = ''RGB''\<rparr>"
      "MachineReal (1 / 2)" "Integer 0" "Integer 2"]
  by (simp add: tracing_externals_def adjust_steps_def numeral_2_eq_2)

text \<open>
  Claim C8. \<^verbatim>\<open>ImagePartition[i, s]\<close> evaluates as \<^verbatim>\<open>ImagePartition[i, {s, s}]\<close>,
  \<^verbatim>\<open>ImageAdjust[image, c]\<close> as \<^verbatim>\<open>ImageAdjust[image, {c, 0, 1}]\<close>, and \<^verbatim>\<open>Blur[image]\<close>
  and \<^verbatim>\<open>Sharpen[i]\<close> as with radius 2: the same result, the same store and the same
  messages.
\<close>

theorem convenience_forms:
  "evaluate ext st evaluation (ImagePartition_i_s img s)
     = evaluate ext st evaluation (ImagePartition_image_w_h img s s)
   \<and> evaluate ext st evaluation (ImageAdjust_image_c img c)
     = evaluate ext st evaluation (ImageAdjust_image_c_b_g img c (Integer 0) (Integer 1))
   \<and> evaluate ext st evaluation (Blur_image img)
     = evaluate ext st evaluation (Blur_image_r img (Integer 2))
   \<and> evaluate ext st evaluation (Sharpen_i img)
     = evaluate ext st evaluation (Sharpen_image_r img (Integer 2))"
proof (intro conjI)
  show "evaluate ext st evaluation (ImagePartition_i_s img s)
     = evaluate ext st evaluation (ImagePartition_image_w_h img s s)"
    by (subst evaluate.simps) simp
  show "evaluate ext st evaluation (ImageAdjust_image_c img c)
     = evaluate ext st evaluation (ImageAdjust_image_c_b_g img c (Integer 0) (Integer 1))"
    by (subst evaluate.simps) simp
  show "evaluate ext st evaluation (Blur_image img)
     = evaluate ext st evaluation (Blur_image_r img (Integer 2))"
    by (subst evaluate.simps) simp
  show "evaluate ext st evaluation (Sharpen_i img)
     = evaluate ext st evaluation (Sharpen_image_r img (Integer 2))"
    by (subst evaluate.simps) simp
qed

text \<open>The theorem at a 4 x 4 image, tile size 2 and contrast 1/2.\<close>

theorem convenience_forms_witness:
  "evaluate tracing_externals (\<lambda>a. None) \<lparr>out = []\<rparr>
     (ImagePartition_i_s
        \<lparr>pixels = \<lparr>base = 0, row0 = 0, col0 = 0, nrows = 4, ncols = 4\<rparr>, color_space = ''RGB''\<rparr> 2)
   = evaluate tracing_externals (\<lambda>a. None) \<lparr>out = []\<rparr>
     (ImagePartition_image_w_h
        \<lparr>pixels = \<lparr>base = 0, row0 = 0, col0 = 0, nrows = 4, ncols = 4\<rparr>, color_space = ''RGB''\<rparr> 2 2)
   \<and> evaluate tracing_externals (\<lambda>a. None) \<lparr>out = []\<rparr>
     (ImageAdjust_image_c
        \<lparr>pixels = \<lparr>base = 0, row0 = 0, col0 = 0, nrows = 4, ncols = 4\<rparr>, color_space = ''RGB''\<rparr>
        (MachineReal (1 / 2)))
   = evaluate tracing_externals (\<lambda>a. None) \<lparr>out = []\<rparr>
     (ImageAdjust_image_c_b_g
        \<lparr>pixels = \<lparr>base = 0, row0 = 0, col0 = 0, nrows = 4, ncols = 4\<rparr>, color_space = ''RGB''\<rparr>
        (MachineReal (1 / 2)) (Integer 0) (Integer 1))
   \<and> evaluate tracing_externals (\<lambda>a. None) \<lparr>out = []\<rparr>
     (Blur_image
        \<lparr>pixels = \<lparr>base = 0, row0 = 0, col0 = 0, nrows = 4, ncols = 4\<rparr>, color_space = ''RGB''\<rparr>)
   = evaluate tracing_externals (\<lambda>a. None) \<lparr>out = []\<rparr>
     (Blur_image_r
        \<lparr>pixels = \<lparr>base = 0, row0 = 0, col0 = 0, nrows = 4, ncols = 4\<rparr>, color_space = ''RGB''\<rparr>
        (Integer 2))
   \<and> evaluate tracing_externals (\<lambda>a. None) \<lparr>out = []\<rparr>
     (Sharpen_i
        \<lparr>pixels = \<lparr>base = 0, row0 = 0, col0 = 0, nrows = 4, ncols = 4\<rparr>, color_space = ''RGB''\<rparr>)
   = evaluate tracing_externals (\<lambda>a. None) \<lparr>out = []\<rparr>
     (Sharpen_image_r
        \<lparr>pixels = \<lparr>base = 0, row0 = 0, col0 = 0, nrows = 4, ncols = 4\<rparr>, color_space = ''RGB''\<rparr>
        (Integer 2))"
  by (rule convenience_forms)




section \<open>Properties of the automatic adjustment\<close>

subsection \<open>Windows of a buffer\<close>









































subsection \<open>The claims\<close>





section \<open>Storage: what the transforms write and what their results share\<close>








section \<open>Properties of Blur and Sharpen\<close>

lemma hd_map_upt: "0 < n \<Longrightarrow> hd (map f [0..<n]) = f 0"
  by (simp add: hd_map upt_conv_Cons)

lemma shape_rows2:
  assumes "0 < length rs" and "0 < length (hd rs)"
  shows "array_shape (Array2 (map (\<lambda>i. map (g i) [0..<length (rs ! i)]) [0..<length rs]))
           = array_shape (Array2 rs)"
  using assms by (simp add: hd_map_upt hd_conv_nth)

lemma shape_rows3:
  assumes "0 < length rs" and "0 < length (hd rs)"
  shows "array_shape (Array3 (map (\<lambda>i. map (\<lambda>j. map (g i j) [0..<length (rs ! i ! j)])
                                           [0..<length (rs ! i)]) [0..<length rs]))
           = array_shape (Array3 rs)"
  using assms by (simp add: hd_map_upt hd_conv_nth)

lemma ImageConvolve_shape:
  assumes "0 < array_shape a ! 0" and "0 < array_shape a ! 1"
  shows "array_shape (ImageConvolve k a) = array_shape a"
proof (cases a)
  case (Array2 rs)
  with assms have "0 < length rs" "0 < length (hd rs)" by simp_all
  then show ?thesis unfolding Array2 ImageConvolve.simps by (rule shape_rows2)
next
  case (Array3 rs)
  with assms have "0 < length rs" "0 < length (hd rs)" by simp_all
  then show ?thesis unfolding Array3 ImageConvolve.simps by (rule shape_rows3)
qed

lemma unsharp_shape:
  assumes "0 < array_shape a ! 0" and "0 < array_shape a ! 1"
  shows "array_shape (unsharp a b) = array_shape a"
proof (cases a)
  case (Array2 rs)
  with assms have "0 < length rs" "0 < length (hd rs)" by simp_all
  then show ?thesis unfolding Array2 unsharp.simps by (rule shape_rows2)
next
  case (Array3 rs)
  with assms have "0 < length rs" "0 < length (hd rs)" by simp_all
  then show ?thesis unfolding Array3 unsharp.simps by (rule shape_rows3)
qed

text \<open>
  Claim C9. For every valid buffer (positive height and width) and every radius
  \<open>radius \<ge> 0\<close>, the output of blur and the output of sharpen have the shape (height, width,
  channels) and the color space of the input.
\<close>

theorem blur_sharpen_shape:
  assumes "0 \<le> radius" and "valid_buffer buffer"
  shows "array_shape (samples (blur buffer radius)) = array_shape (samples buffer)
       \<and> colorSpace (blur buffer radius) = colorSpace buffer
       \<and> array_shape (samples (sharpen buffer radius)) = array_shape (samples buffer)
       \<and> colorSpace (sharpen buffer radius) = colorSpace buffer"
  using assms
  by (simp add: blur_def sharpen_def valid_buffer_def ImageConvolve_shape unsharp_shape)

text \<open>
  The theorem at a 3 x 3 single-channel buffer with the sample 9 in the middle and
  radius 1: the blurred buffer is 3 x 3 with the sample 1 everywhere.
\<close>

theorem blur_sharpen_shape_witness:
  "(0::real) \<le> 1
   \<and> valid_buffer \<lparr>samples = Array2 [[0, 0, 0], [0, 9, 0], [0, 0, 0]], colorSpace = ''Grayscale''\<rparr>
   \<and> blur \<lparr>samples = Array2 [[0, 0, 0], [0, 9, 0], [0, 0, 0]], colorSpace = ''Grayscale''\<rparr> 1
       = \<lparr>samples = Array2 [[1, 1, 1], [1, 1, 1], [1, 1, 1]], colorSpace = ''Grayscale''\<rparr>
   \<and> array_shape (samples
         (blur \<lparr>samples = Array2 [[0, 0, 0], [0, 9, 0], [0, 0, 0]], colorSpace = ''Grayscale''\<rparr> 1))
       = [3, 3]
   \<and> array_shape (samples
         (sharpen \<lparr>samples = Array2 [[0, 0, 0], [0, 9, 0], [0, 0, 0]], colorSpace = ''Grayscale''\<rparr> 1))
       = [3, 3]
   \<and> colorSpace
         (sharpen \<lparr>samples = Array2 [[0, 0, 0], [0, 9, 0], [0, 0, 0]], colorSpace = ''Grayscale''\<rparr> 1)
       = ''Grayscale''"
proof -
  let ?b = "\<lparr>samples = Array2 [[0, 0, 0], [0, 9, 0], [0, 0, 0]], colorSpace = ''Grayscale''\<rparr>"
  have r: "(0::real) \<le> 1" by simp
  have v: "valid_buffer ?b" by (simp add: valid_buffer_def)
  have k: "normalised (BoxMatrix 1) = [[1/9, 1/9, 1/9], [1/9, 1/9, 1/9], [1/9, 1/9, 1/9]]"
    by (simp add: normalised_def BoxMatrix_def numeral_3_eq_3)
  have b: "blur ?b 1 = \<lparr>samples = Array2 [[1, 1, 1], [1, 1, 1], [1, 1, 1]], colorSpace = ''Grayscale''\<rparr>"
    unfolding blur_def k
    by (simp add: convolve_at_def clamp_def upt_rec)
  from blur_sharpen_shape[OF r v] r v b show ?thesis by simp
qed

end
